theory Spec2Isabelle
  imports Complex_Main
begin

section \<open>The face verification component\<close>

text \<open>
  A shallow embedding of \<^verbatim>\<open>src/Components/VerifcationComponent.tsx\<close>: the gaze heuristic
  \<^verbatim>\<open>checkIfLookingAtScreen\<close> and the two handlers \<^verbatim>\<open>captureFace\<close> and \<^verbatim>\<open>verifyFace\<close>
  of the React component, with the component's \<^verbatim>\<open>useState\<close> fields as a record.

  A JavaScript number is modelled by the real number it stands for: the coordinates, the
  descriptor entries and the distance are taken to be finite. The arithmetic of
  \<^verbatim>\<open>verifyFace\<close> on the distance (the literal \<^verbatim>\<open>0.6\<close>, the subtraction and the
  multiplication of line 363) is that of IEEE 754 doubles, each result rounded to the nearest
  double; the gaze check and the two library functions are computed over the reals. The one
  place where the code itself can produce \<^verbatim>\<open>NaN\<close> from finite input (the centre of an
  empty point list, \<^verbatim>\<open>0 / 0\<close>) is a case of its own.
\<close>

subsection \<open>Data\<close>

record point =
  x :: real
  y :: real

text \<open>
  What the component reads of \<^verbatim>\<open>faceapi.FaceLandmarks68\<close>: the point arrays returned by
  \<^verbatim>\<open>getNose()\<close>, \<^verbatim>\<open>getLeftEye()\<close> and \<^verbatim>\<open>getRightEye()\<close>.
\<close>

record FaceLandmarks68 =
  getNose :: "point list"
  getLeftEye :: "point list"
  getRightEye :: "point list"

type_synonym Float32Array = "real list"

text \<open>
  One element of the array \<^verbatim>\<open>detectAllFaces(...).withFaceLandmarks().withFaceDescriptors()\<close>
  resolves to. Its bounding box is only drawn, never read by a decision, and is left out.
\<close>

record WithFaceDescriptor =
  landmarks :: FaceLandmarks68
  descriptor :: Float32Array

record FaceData =
  descriptor :: Float32Array
  detection :: WithFaceDescriptor

text \<open>The optional fields \<^verbatim>\<open>distance?\<close> and \<^verbatim>\<open>confidence?\<close> are options.\<close>

record VerificationResult =
  isMatch :: bool
  message :: string
  distance :: "real option"
  confidence :: "int option"

text \<open>The \<^verbatim>\<open>useState\<close> fields of the component.\<close>

record component =
  modelsLoaded :: bool
  initialFace :: "FaceData option"
  verificationResult :: "VerificationResult option"
  statusMessage :: string
  multipleFacesDetected :: bool
  isLookingAtScreen :: bool

text \<open>
  What a handler finds outside the component's state when it runs: whether
  \<^verbatim>\<open>videoRef.current\<close> is set, the canvas (\<^verbatim>\<open>canvasRef.current\<close> unset, set with
  \<^verbatim>\<open>getContext("2d")\<close> returning null, or set with a context), and what the awaited detector
  call does on the current frame (it rejects, or resolves to an array of detections).
\<close>

datatype canvas = NoCanvas | NoContext | Context

datatype detector = Rejects | Resolves "WithFaceDescriptor list"

record env =
  videoRef :: bool
  canvasRef :: canvas
  detectAllFaces :: detector

text \<open>What a \<^verbatim>\<open>try\<close> block of the component can catch.\<close>

datatype thrown = TypeError | LengthError

text \<open>
  The state setters a handler calls, in the order it calls them. Every setter is called
  with a value (never with an updater function), so the state after the handler is the state
  before it with the calls applied in order.
\<close>

datatype effect =
    SetModelsLoaded bool
  | SetInitialFace FaceData
  | SetVerificationResult VerificationResult
  | SetStatusMessage string
  | SetMultipleFacesDetected bool
  | SetIsLookingAtScreen bool

fun apply_effect :: "effect \<Rightarrow> component \<Rightarrow> component" where
  "apply_effect (SetModelsLoaded b) c = c\<lparr>modelsLoaded := b\<rparr>"
| "apply_effect (SetInitialFace f) c = c\<lparr>initialFace := Some f\<rparr>"
| "apply_effect (SetVerificationResult r) c = c\<lparr>verificationResult := Some r\<rparr>"
| "apply_effect (SetStatusMessage s) c = c\<lparr>statusMessage := s\<rparr>"
| "apply_effect (SetMultipleFacesDetected b) c = c\<lparr>multipleFacesDetected := b\<rparr>"
| "apply_effect (SetIsLookingAtScreen b) c = c\<lparr>isLookingAtScreen := b\<rparr>"

fun apply_effects :: "effect list \<Rightarrow> component \<Rightarrow> component" where
  "apply_effects [] c = c"
| "apply_effects (e # es) c = apply_effects es (apply_effect e c)"

subsection \<open>Library functions the component calls\<close>

text \<open>
  Modelled from the spec: \<^verbatim>\<open>getCenterPoint\<close> is a function of face-api.js, a dependency
  that is not under src/. Section 4.1 of the specification gives it as the centroid, the
  mean of the x and the mean of the y coordinates of the points. On an empty array the
  quotient is \<^verbatim>\<open>0 / 0\<close>, a point of two \<^verbatim>\<open>NaN\<close>s: \<open>None\<close> here.
\<close>

definition getCenterPoint :: "point list \<Rightarrow> point option" where
  "getCenterPoint pts =
     (if pts = [] then None
      else Some \<lparr>x = sum_list (map x pts) / real (length pts),
                 y = sum_list (map y pts) / real (length pts)\<rparr>)"

text \<open>
  Modelled from the spec: \<^verbatim>\<open>faceapi.euclideanDistance\<close> is a function of face-api.js, a
  dependency that is not under src/. Section 4.3 of the specification gives it as the
  standard L2 norm of the element-wise difference of two fixed-length vectors. The library
  raises an error when the two arrays differ in length; the call stands inside the
  \<^verbatim>\<open>try\<close> block of \<^verbatim>\<open>verifyFace\<close>.
\<close>

definition euclideanDistance :: "Float32Array \<Rightarrow> Float32Array \<Rightarrow> thrown + real" where
  "euclideanDistance arr1 arr2 =
     (if length arr1 \<noteq> length arr2 then Inl LengthError
      else Inr (sqrt (sum_list (map (\<lambda>(val1, val2). (val1 - val2)\<^sup>2) (zip arr1 arr2)))))"

text \<open>
  The double a real number is rounded to (IEEE 754 binary64, round to nearest, ties to
  even): a double is an integer multiple \<open>m * 2 ^ q\<close> with \<open>\<bar>m\<bar> \<le> 2 ^ 53\<close>, where \<open>q\<close> is
  52 below the binary exponent of the number and at least \<open>- 1074\<close> (from there on the
  doubles are subnormal). Overflow to \<^verbatim>\<open>Infinity\<close> begins at \<open>2 ^ 1024\<close>; the numbers
  rounded here stay far below it, the distance of two \<^verbatim>\<open>Float32Array\<close>s being below
  \<open>2 ^ 160\<close> for any array length, and that case is not modelled.
\<close>

definition roundTiesToEven :: "real \<Rightarrow> int" where
  "roundTiesToEven r =
     (let f = \<lfloor>r\<rfloor>; t = r - of_int f
      in if t < 1 / 2 then f
         else if 1 / 2 < t then f + 1
         else if even f then f else f + 1)"

definition roundToDouble :: "real \<Rightarrow> real" where
  "roundToDouble r =
     (if r = 0 then 0
      else
        (let q = max (\<lfloor>log 2 \<bar>r\<bar>\<rfloor> - 52) (- 1074)
         in of_int (roundTiesToEven (r / 2 powi q)) * 2 powi q))"

text \<open>
  \<^verbatim>\<open>Math.round\<close>: the nearest integer, a tie going up. It is exact: the result is the
  integer nearest to the double it is given.
\<close>

definition Math_round :: "real \<Rightarrow> int" where
  "Math_round r = \<lfloor>r + 1 / 2\<rfloor>"

text \<open>
  An integer inside a template literal: its decimal digits, with a sign when negative.
  That is what the engine prints for an integer of magnitude below \<open>2 ^ 53\<close>, where the
  confidence of any distance below \<open>2 ^ 46\<close> lies.
\<close>

definition digit :: "nat \<Rightarrow> char" where
  "digit n = ''0123456789'' ! n"

fun string_of_nat :: "nat \<Rightarrow> string" where
  "string_of_nat n =
     (if n < 10 then [digit n] else string_of_nat (n div 10) @ [digit (n mod 10)])"

declare string_of_nat.simps [simp del]

definition string_of_int :: "int \<Rightarrow> string" where
  "string_of_int i = (if i < 0 then CHR ''-'' # string_of_nat (nat (- i)) else string_of_nat (nat i))"

subsection \<open>The gaze check\<close>

text \<open>
  \<^verbatim>\<open>checkIfLookingAtScreen\<close>, lines 83 to 109. \<^verbatim>\<open>nose[3]\<close> of an array with fewer than four
  points is \<^verbatim>\<open>undefined\<close>, and reading its \<^verbatim>\<open>x\<close> on line 103 throws a TypeError. When an eye
  has no points its centre is \<^verbatim>\<open>NaN\<close>, so are both differences, and a comparison with
  \<^verbatim>\<open>NaN\<close> is false.
\<close>

definition checkIfLookingAtScreen :: "FaceLandmarks68 \<Rightarrow> thrown + bool" where
  "checkIfLookingAtScreen lm =
     (let nose = getNose lm;
          leftEye = getLeftEye lm;
          rightEye = getRightEye lm
      in if length nose \<le> 3 then Inl TypeError
         else
           (case (getCenterPoint leftEye, getCenterPoint rightEye) of
              (Some leftEyeCenter, Some rightEyeCenter) \<Rightarrow>
                (let nosePoint = nose ! 3;
                     eyeLine = \<lparr>x = x rightEyeCenter - x leftEyeCenter,
                                y = y rightEyeCenter - y leftEyeCenter\<rparr>;
                     eyeYDifference = \<bar>y eyeLine\<bar>;
                     eyeXDifference = \<bar>x eyeLine\<bar>;
                     noseXCenter = (x leftEyeCenter + x rightEyeCenter) / 2;
                     noseOffset = \<bar>x nosePoint - noseXCenter\<bar>;
                     isEyesLevel = (eyeYDifference < eyeXDifference * (3 / 10));
                     isNoseCentered = (noseOffset < eyeXDifference * (4 / 10))
                 in Inr (isEyesLevel \<and> isNoseCentered))
            | _ \<Rightarrow> Inr False))"

subsection \<open>The handlers\<close>

text \<open>
  Every branch of the two handlers that draws does so inside
  \<^verbatim>\<open>if (canvasRef.current) { ... }\<close>, and returns early with the status
  \<^verbatim>\<open>"Canvas not initialized"\<close> when the canvas has no 2D context. The drawing itself changes
  no state; \<open>rest\<close> is what the handler does after the block.
\<close>

definition drawOverlay :: "canvas \<Rightarrow> effect list \<Rightarrow> effect list" where
  "drawOverlay cv rest =
     (case cv of
        NoCanvas \<Rightarrow> rest
      | NoContext \<Rightarrow> [SetStatusMessage ''Canvas not initialized'']
      | Context \<Rightarrow> rest)"

text \<open>\<^verbatim>\<open>loadModels\<close>, lines 37 to 52; the argument says whether the three loads succeed.\<close>

definition loadModels :: "bool \<Rightarrow> effect list" where
  "loadModels loaded =
     SetStatusMessage ''Loading face detection models'' #
     (if loaded
      then [SetModelsLoaded True,
            SetStatusMessage ''Models loaded successfully, you can now capture face.'']
      else [SetStatusMessage ''Failed to load models. Check console for details.''])"

text \<open>\<^verbatim>\<open>startWebcam\<close>, lines 58 to 75; the argument says whether the camera is granted.\<close>

definition startWebcam :: "bool \<Rightarrow> env \<Rightarrow> effect list" where
  \<open>startWebcam granted e =
     (if \<not> videoRef e then []
      else SetStatusMessage ''Requesting webcam access'' #
        (if granted
         then [SetStatusMessage ''Webcam active. Position your face and click "Capture Face"'']
         else [SetStatusMessage ''Failed to access webcam. Check permissions and try again.'']))\<close>

text \<open>\<^verbatim>\<open>captureFace\<close>, lines 111 to 240.\<close>

definition captureFace :: "env \<Rightarrow> component \<Rightarrow> effect list" where
  "captureFace e c =
     (if \<not> videoRef e \<or> \<not> modelsLoaded c then []
      else SetStatusMessage ''Detecting Face....'' #
        (case detectAllFaces e of
           Rejects \<Rightarrow> [SetStatusMessage ''Failed at detecting face.'']
         | Resolves detections \<Rightarrow>
             if length detections = 0 then
               [SetStatusMessage
                  ''No face detected! Please position yourself properly and try again'']
             else if length detections > 1 then
               SetMultipleFacesDetected True #
               SetStatusMessage
                 ''Multiple faces detected! Please ensure only your face is in the frame.'' #
               drawOverlay (canvasRef e) []
             else
               (let detection = detections ! 0 in
                case checkIfLookingAtScreen (landmarks detection) of
                  Inl err \<Rightarrow> [SetStatusMessage ''Failed at detecting face.'']
                | Inr isLooking \<Rightarrow>
                    SetIsLookingAtScreen isLooking #
                    (if \<not> isLooking then
                       SetStatusMessage
                         ''Please look directly at the screen before capturing your face.'' #
                       drawOverlay (canvasRef e) []
                     else
                       SetInitialFace
                         \<lparr>descriptor = WithFaceDescriptor.descriptor detection,
                          detection = detection\<rparr> #
                       drawOverlay (canvasRef e)
                         [SetStatusMessage
                            ''Face captured successfully! Now try the verification.'']))))"

text \<open>
  \<^verbatim>\<open>verifyFace\<close>, lines 242 to 405. The literal \<^verbatim>\<open>0.6\<close> of line 361 is the double nearest
  to 0.6, and the comparison of two doubles on line 362 is exact. On line 363 the
  difference \<^verbatim>\<open>1 - distance\<close> and its product with 100 are each rounded to a double.
\<close>

definition verifyFace :: "env \<Rightarrow> component \<Rightarrow> effect list" where
  "verifyFace e c =
     (case initialFace c of
        None \<Rightarrow> [SetStatusMessage ''Please capture your initial face first'']
      | Some face \<Rightarrow>
        if \<not> videoRef e \<or> \<not> modelsLoaded c then
          [SetStatusMessage ''Please capture your initial face first'']
        else SetStatusMessage ''Verifying face'' #
          (case detectAllFaces e of
             Rejects \<Rightarrow> [SetStatusMessage ''Error at verifying the face.'']
           | Resolves detections \<Rightarrow>
               if length detections = 0 then
                 [SetVerificationResult
                    \<lparr>isMatch = False,
                     message = ''No face detected for verification.'',
                     distance = None, confidence = None\<rparr>,
                  SetStatusMessage ''Verification failed: No face detected.'']
               else if length detections > 1 then
                 SetMultipleFacesDetected True #
                 SetVerificationResult
                   \<lparr>isMatch = False,
                    message =
                      ''Multiple faces detected. Please ensure only your face is in the frame.'',
                    distance = None, confidence = None\<rparr> #
                 drawOverlay (canvasRef e)
                   [SetStatusMessage ''Verification failed: Multiple faces detected.'']
               else
                 (let detection = detections ! 0 in
                  case checkIfLookingAtScreen (landmarks detection) of
                    Inl err \<Rightarrow> [SetStatusMessage ''Error at verifying the face.'']
                  | Inr isLooking \<Rightarrow>
                      SetIsLookingAtScreen isLooking #
                      (if \<not> isLooking then
                         SetVerificationResult
                           \<lparr>isMatch = False,
                            message = ''Please look directly at the screen for verification.'',
                            distance = None, confidence = None\<rparr> #
                         drawOverlay (canvasRef e)
                           [SetStatusMessage ''Verification failed: Not looking at screen.'']
                       else
                         (case euclideanDistance (FaceData.descriptor face)
                                 (WithFaceDescriptor.descriptor detection) of
                            Inl err \<Rightarrow> [SetStatusMessage ''Error at verifying the face.'']
                          | Inr distance' \<Rightarrow>
                              (let threshold = roundToDouble (6 / 10);
                                   isMatch = (distance' < threshold);
                                   confidence =
                                     Math_round (roundToDouble (roundToDouble (1 - distance') * 100))
                               in SetVerificationResult
                                    \<lparr>isMatch = isMatch,
                                     message =
                                       (if isMatch
                                        then ''Match confirmed! ('' @ string_of_int confidence @
                                             ''% confidence)''
                                        else ''Different person detected. ('' @
                                             string_of_int confidence @ ''% similarity)''),
                                     distance = Some distance',
                                     confidence = Some confidence\<rparr> #
                                  drawOverlay (canvasRef e)
                                    [SetStatusMessage
                                       (''Verification complete: '' @
                                        (if isMatch then ''Match confirmed!''
                                         else ''Different person detected.''))]))))))"

subsection \<open>The component as a state machine\<close>

text \<open>
  The state the component mounts with (lines 25 to 33), the user's and the mount's actions,
  and the state after an action.
\<close>

definition initial :: component where
  "initial =
     \<lparr>modelsLoaded = False, initialFace = None, verificationResult = None,
      statusMessage = ''Loading Models....'', multipleFacesDetected = False,
      isLookingAtScreen = True\<rparr>"

datatype action = LoadModels bool | StartWebcam bool env | CaptureFace env | VerifyFace env

fun effects :: "action \<Rightarrow> component \<Rightarrow> effect list" where
  "effects (LoadModels loaded) c = loadModels loaded"
| "effects (StartWebcam granted e) c = startWebcam granted e"
| "effects (CaptureFace e) c = captureFace e c"
| "effects (VerifyFace e) c = verifyFace e c"

definition step :: "action \<Rightarrow> component \<Rightarrow> component" where
  "step a c = apply_effects (effects a c) c"

fun run :: "action list \<Rightarrow> component \<Rightarrow> component" where
  "run [] c = c"
| "run (a # as) c = run as (step a c)"

inductive reachable :: "component \<Rightarrow> bool" where
  reachable_initial: "reachable initial"
| reachable_step: "reachable c \<Longrightarrow> reachable (step a c)"


text \<open>
  An action enrolls when the handler calls \<^verbatim>\<open>setInitialFace\<close>; a run is quiet when none of
  its actions does.
\<close>

fun is_SetInitialFace :: "effect \<Rightarrow> bool" where
  "is_SetInitialFace (SetInitialFace f) = True"
| "is_SetInitialFace other = False"

definition enrolls :: "action \<Rightarrow> component \<Rightarrow> bool" where
  "enrolls a c = list_ex is_SetInitialFace (effects a c)"

fun quiet :: "action list \<Rightarrow> component \<Rightarrow> bool" where
  "quiet [] c = True"
| "quiet (a # as) c = (\<not> enrolls a c \<and> quiet as (step a c))"

subsection \<open>Sample inputs\<close>

text \<open>
  Landmark sets with the nine nose points and the six points per eye of the 68-point model:
  a frontal face (eyes level at distance 10, nose tip on their midline), a face whose eye
  centres lie one above the other, and a detection whose landmarks all coincide.
\<close>

definition frontal_landmarks :: FaceLandmarks68 where
  "frontal_landmarks =
     \<lparr>getNose = replicate 9 \<lparr>x = 5, y = 5\<rparr>,
      getLeftEye = replicate 6 \<lparr>x = 0, y = 0\<rparr>,
      getRightEye = replicate 6 \<lparr>x = 10, y = 0\<rparr>\<rparr>"

definition upright_landmarks :: FaceLandmarks68 where
  "upright_landmarks =
     \<lparr>getNose = replicate 9 \<lparr>x = 10, y = 4\<rparr>,
      getLeftEye = replicate 6 \<lparr>x = 10, y = 0\<rparr>,
      getRightEye = replicate 6 \<lparr>x = 10, y = 8\<rparr>\<rparr>"

definition collapsed_landmarks :: FaceLandmarks68 where
  "collapsed_landmarks =
     \<lparr>getNose = replicate 9 \<lparr>x = 0, y = 0\<rparr>,
      getLeftEye = replicate 6 \<lparr>x = 0, y = 0\<rparr>,
      getRightEye = replicate 6 \<lparr>x = 0, y = 0\<rparr>\<rparr>"

text \<open>
  Descriptors of length 128 that differ in their first entry only, so that the distance
  of two of them is the difference of the first entries.
\<close>

definition unit_descriptor :: "real \<Rightarrow> Float32Array" where
  "unit_descriptor a = a # replicate 127 0"

definition frontal_face :: "real \<Rightarrow> WithFaceDescriptor" where
  "frontal_face a =
     \<lparr>landmarks = frontal_landmarks, WithFaceDescriptor.descriptor = unit_descriptor a\<rparr>"

definition upright_face :: "real \<Rightarrow> WithFaceDescriptor" where
  "upright_face a =
     \<lparr>landmarks = upright_landmarks, WithFaceDescriptor.descriptor = unit_descriptor a\<rparr>"

text \<open>
  Pairs of descriptors of length 128 with \<^verbatim>\<open>Float32Array\<close> entries (24 significant bits),
  zero from the sixth entry on. Their distances are the double written \<^verbatim>\<open>0.6\<close>
  (\<open>5404319552844595 / 2 ^ 53\<close>), the double just below it, and the double written
  \<^verbatim>\<open>1.3\<close> (\<open>5854679515581645 / 2 ^ 52\<close>).
\<close>

definition padded :: "real list \<Rightarrow> Float32Array" where
  "padded entries = entries @ replicate (128 - length entries) 0"

definition stored_at_threshold :: Float32Array where
  "stored_at_threshold =
     padded [5033165 / 2 ^ 23, 4592267 / 2 ^ 48, 9076179 / 2 ^ 50, 16651283 / 2 ^ 51,
             8375905 / 2 ^ 51]"

definition probe_at_threshold :: Float32Array where
  "probe_at_threshold =
     padded [13421773 / 2 ^ 49, - (3 / 2 ^ 52), 1 / 2 ^ 53, 1 / 2 ^ 52, 0]"

definition stored_below_threshold :: Float32Array where
  "stored_below_threshold =
     padded [5033165 / 2 ^ 23, 14760955 / 2 ^ 50, 14659443 / 2 ^ 51, 13314667 / 2 ^ 51,
             2336625 / 2 ^ 49]"

definition probe_below_threshold :: Float32Array where
  "probe_below_threshold =
     padded [13421773 / 2 ^ 49, - (1 / 2 ^ 52), 0, 0, 0]"

definition stored_far :: Float32Array where
  "stored_far =
     padded [5452595 / 2 ^ 22, 1072969 / 2 ^ 44, 15842481 / 2 ^ 48, 12245983 / 2 ^ 49,
             844743 / 2 ^ 46]"

definition probe_far :: Float32Array where
  "probe_far =
     padded [- (3355443 / 2 ^ 46), - (3 / 2 ^ 50), 3 / 2 ^ 51, - (1 / 2 ^ 52), 1 / 2 ^ 51]"

definition face_of :: "Float32Array \<Rightarrow> WithFaceDescriptor" where
  "face_of arr = \<lparr>landmarks = frontal_landmarks, WithFaceDescriptor.descriptor = arr\<rparr>"

definition frame :: "WithFaceDescriptor list \<Rightarrow> env" where
  "frame detections =
     \<lparr>videoRef = True, canvasRef = Context, detectAllFaces = Resolves detections\<rparr>"

text \<open>The component after the models have loaded, and after a capture of a frontal face.\<close>

definition ready :: component where
  "ready = step (LoadModels True) initial"

definition enrolled :: "real \<Rightarrow> component" where
  "enrolled a = step (CaptureFace (frame [frontal_face a])) ready"

definition enrolled_of :: "Float32Array \<Rightarrow> component" where
  "enrolled_of arr = step (CaptureFace (frame [face_of arr])) ready"

section \<open>Properties\<close>

subsection \<open>Auxiliary facts\<close>

lemma Math_round_eq_round: "Math_round r = round r"
  by (simp add: Math_round_def round_def)

text \<open>
  Rounding to a double in the normal range: with \<open>2 ^ E \<le> \<bar>r\<bar> < 2 ^ (E + 1)\<close> the
  doubles around \<open>r\<close> are the multiples of \<open>2 ^ (E - 52)\<close>.
\<close>

lemma roundToDouble_normal:
  assumes "2 powi E \<le> \<bar>r\<bar>" and "\<bar>r\<bar> < 2 powi (E + 1)" and "- 1022 \<le> E"
  shows "roundToDouble r = of_int (roundTiesToEven (r / 2 powi (E - 52))) * 2 powi (E - 52)"
proof -
  have pos: "0 < \<bar>r\<bar>"
    using assms(1) by (smt (verit) zero_less_power_int)
  have low: "2 powr real_of_int E = (2::real) powi E"
    by (simp add: powr_real_of_int')
  have high: "2 powr (real_of_int E + 1) = (2::real) powi (E + 1)"
    using powr_real_of_int' [of 2 "E + 1"] by simp
  have "\<lfloor>log 2 \<bar>r\<bar>\<rfloor> = E"
    using assms(1,2) pos by (simp add: floor_log_eq_powr_iff low high)
  moreover have "r \<noteq> 0" using pos by auto
  moreover have "max (E - 52) (- 1074) = E - 52"
    using assms(3) by simp
  ultimately show ?thesis
    by (simp only: roundToDouble_def Let_def if_False)
qed

text \<open>The double written \<^verbatim>\<open>0.6\<close> lies below 0.6.\<close>

lemma threshold_value: "roundToDouble (6 / 10) = 5404319552844595 / 2 ^ 53"
  by (subst roundToDouble_normal [where E = "- 1"])
     (simp_all add: roundTiesToEven_def power_int_minus)

lemma threshold_value_reduced: "roundToDouble (3 / 5) = 5404319552844595 / 2 ^ 53"
  using threshold_value by simp

lemma roundToDouble_zero: "roundToDouble 0 = 0"
  by (simp add: roundToDouble_def)

text \<open>The confidence at some distances: line 363, step by step.\<close>

lemma confidence_at_0: "Math_round (roundToDouble (roundToDouble (1 - 0) * 100)) = 100"
proof -
  have first: "roundToDouble (1 - 0) = 1"
    by (subst roundToDouble_normal [where E = 0])
       (simp_all add: roundTiesToEven_def power_int_minus)
  have second: "roundToDouble (1 * 100) = 100"
    by (subst roundToDouble_normal [where E = 6])
       (simp_all add: roundTiesToEven_def power_int_minus)
  show ?thesis unfolding first second Math_round_def by simp
qed

lemma confidence_at_1: "Math_round (roundToDouble (roundToDouble (1 - 1) * 100)) = 0"
  by (simp add: roundToDouble_zero Math_round_def)

lemma confidence_at_far:
  "Math_round (roundToDouble (roundToDouble (1 - 5854679515581645 / 2 ^ 52) * 100)) = - 30"
proof -
  have first: "roundToDouble (1 - 5854679515581645 / 2 ^ 52) = - (1351079888211149 / 2 ^ 52)"
    by (subst roundToDouble_normal [where E = "- 2"])
       (simp_all add: roundTiesToEven_def power_int_minus)
  have second: "roundToDouble (- (1351079888211149 / 2 ^ 52) * 100)
      = - (8444249301319681 / 2 ^ 48)"
    by (subst roundToDouble_normal [where E = 4])
       (simp_all add: roundTiesToEven_def power_int_minus)
  show ?thesis unfolding first second Math_round_def by simp
qed

lemma confidence_at_near:
  "Math_round (roundToDouble (roundToDouble (1 - 1823957849085051 / 2 ^ 52) * 100)) = 60"
proof -
  have first: "roundToDouble (1 - 1823957849085051 / 2 ^ 52) = 2679641778285445 / 2 ^ 52"
    by (subst roundToDouble_normal [where E = "- 1"])
       (simp_all add: roundTiesToEven_def power_int_minus)
  have second: "roundToDouble (2679641778285445 / 2 ^ 52 * 100) = 119 / 2"
    by (subst roundToDouble_normal [where E = 5])
       (simp_all add: roundTiesToEven_def power_int_minus)
  show ?thesis unfolding first second Math_round_def by simp
qed

lemma confidence_at_tie_up:
  "Math_round (roundToDouble (roundToDouble (1 - 7 / 8) * 100)) = 13"
proof -
  have first: "roundToDouble (1 - 7 / 8) = 1 / 8"
    by (subst roundToDouble_normal [where E = "- 3"])
       (simp_all add: roundTiesToEven_def power_int_minus)
  have second: "roundToDouble (1 / 8 * 100) = 25 / 2"
    by (subst roundToDouble_normal [where E = 3])
       (simp_all add: roundTiesToEven_def power_int_minus)
  show ?thesis unfolding first second Math_round_def by simp
qed

lemma confidence_at_tie_down:
  "Math_round (roundToDouble (roundToDouble (1 - 11 / 8) * 100)) = - 37"
proof -
  have first: "roundToDouble (1 - 11 / 8) = - (3 / 8)"
    by (subst roundToDouble_normal [where E = "- 2"])
       (simp_all add: roundTiesToEven_def power_int_minus)
  have second: "roundToDouble (- (3 / 8) * 100) = - (75 / 2)"
    by (subst roundToDouble_normal [where E = 5])
       (simp_all add: roundTiesToEven_def power_int_minus)
  show ?thesis unfolding first second Math_round_def by simp
qed

lemma getCenterPoint_replicate:
  "0 < n \<Longrightarrow> getCenterPoint (replicate n p) = Some \<lparr>x = x p, y = y p\<rparr>"
  by (simp add: getCenterPoint_def sum_list_replicate)

lemma check_frontal: "checkIfLookingAtScreen frontal_landmarks = Inr True"
  by (simp add: checkIfLookingAtScreen_def frontal_landmarks_def getCenterPoint_replicate)

lemma check_upright: "checkIfLookingAtScreen upright_landmarks = Inr False"
  by (simp add: checkIfLookingAtScreen_def upright_landmarks_def getCenterPoint_replicate)

lemma check_collapsed: "checkIfLookingAtScreen collapsed_landmarks = Inr False"
  by (simp add: checkIfLookingAtScreen_def collapsed_landmarks_def getCenterPoint_replicate)

lemma euclideanDistance_unit:
  "euclideanDistance (unit_descriptor a) (unit_descriptor b) = Inr \<bar>a - b\<bar>"
  by (simp add: euclideanDistance_def unit_descriptor_def sum_list_replicate)

lemma euclideanDistance_padded:
  "euclideanDistance (padded [a1, a2, a3, a4, a5]) (padded [b1, b2, b3, b4, b5]) =
     Inr (sqrt ((a1 - b1)\<^sup>2 + ((a2 - b2)\<^sup>2 + ((a3 - b3)\<^sup>2 + ((a4 - b4)\<^sup>2 + (a5 - b5)\<^sup>2)))))"
  by (simp add: euclideanDistance_def padded_def sum_list_replicate)

lemma distance_at_threshold:
  "euclideanDistance stored_at_threshold probe_at_threshold = Inr (5404319552844595 / 2 ^ 53)"
  unfolding stored_at_threshold_def probe_at_threshold_def euclideanDistance_padded sum.inject
  by (rule real_sqrt_unique) (simp_all add: power2_eq_square)

lemma distance_below_threshold:
  "euclideanDistance stored_below_threshold probe_below_threshold =
     Inr (5404319552844594 / 2 ^ 53)"
  unfolding stored_below_threshold_def probe_below_threshold_def euclideanDistance_padded
    sum.inject
  by (rule real_sqrt_unique) (simp_all add: power2_eq_square)

lemma distance_far:
  "euclideanDistance stored_far probe_far = Inr (5854679515581645 / 2 ^ 52)"
  unfolding stored_far_def probe_far_def euclideanDistance_padded sum.inject
  by (rule real_sqrt_unique) (simp_all add: power2_eq_square)

lemma squares_same: "sum_list (map (\<lambda>(val1, val2). (val1 - val2)\<^sup>2) (zip a a)) = (0::real)"
  by (induction a) simp_all

lemma euclideanDistance_same: "euclideanDistance a a = Inr 0"
  by (simp add: euclideanDistance_def squares_same)

lemma ready_eq:
  "ready = initial\<lparr>modelsLoaded := True,
     statusMessage := ''Models loaded successfully, you can now capture face.''\<rparr>"
  by (simp add: ready_def step_def loadModels_def)

lemma frontal_face_fields:
  "landmarks (frontal_face a) = frontal_landmarks"
  "WithFaceDescriptor.descriptor (frontal_face a) = unit_descriptor a"
  by (simp_all add: frontal_face_def)

lemma upright_face_fields:
  "landmarks (upright_face a) = upright_landmarks"
  "WithFaceDescriptor.descriptor (upright_face a) = unit_descriptor a"
  by (simp_all add: upright_face_def)

lemma frame_fields:
  "videoRef (frame ds)" "canvasRef (frame ds) = Context" "detectAllFaces (frame ds) = Resolves ds"
  by (simp_all add: frame_def)

lemma ready_fields:
  "modelsLoaded ready" "initialFace ready = None" "verificationResult ready = None"
  by (simp_all add: ready_eq initial_def)

lemma enrolled_fields:
  "modelsLoaded (enrolled a)"
  "initialFace (enrolled a) =
     Some \<lparr>descriptor = unit_descriptor a, detection = frontal_face a\<rparr>"
  "verificationResult (enrolled a) = None"
  by (simp_all add: enrolled_def step_def captureFace_def frame_fields drawOverlay_def
      ready_fields check_frontal frontal_face_fields)

lemma face_of_fields:
  "landmarks (face_of arr) = frontal_landmarks"
  "WithFaceDescriptor.descriptor (face_of arr) = arr"
  by (simp_all add: face_of_def)

lemma enrolled_of_fields:
  "modelsLoaded (enrolled_of arr)"
  "initialFace (enrolled_of arr) = Some \<lparr>descriptor = arr, detection = face_of arr\<rparr>"
  by (simp_all add: enrolled_of_def step_def captureFace_def frame_fields drawOverlay_def
      ready_fields check_frontal face_of_fields)

lemma reachable_ready: "reachable ready"
  unfolding ready_def by (intro reachable.intros)

lemma reachable_enrolled: "reachable (enrolled a)"
  unfolding enrolled_def by (intro reachable_step reachable_ready)

text \<open>
  A verify action that reaches the comparison sets a verdict with the match decision, the
  distance and the rounded confidence.
\<close>

lemma verifyFace_compares:
  assumes "videoRef e" and "modelsLoaded c" and "initialFace c = Some face"
    and "detectAllFaces e = Resolves [probe]"
    and "checkIfLookingAtScreen (landmarks probe) = Inr True"
    and "euclideanDistance (FaceData.descriptor face) (WithFaceDescriptor.descriptor probe) = Inr d"
  shows "\<exists>m. verificationResult (step (VerifyFace e) c) =
           Some \<lparr>isMatch = (d < roundToDouble (6 / 10)), message = m, distance = Some d,
                 confidence = Some (Math_round (roundToDouble (roundToDouble (1 - d) * 100)))\<rparr>"
  using assms
  by (cases "canvasRef e") (simp_all add: step_def verifyFace_def drawOverlay_def Let_def)

text \<open>Where a verdict set by \<^verbatim>\<open>verifyFace\<close> comes from: the four calls of the setter.\<close>

lemma verdict_produced_cases:
  assumes "SetVerificationResult v \<in> set (verifyFace e c)"
  obtains (empty) face where "initialFace c = Some face" "detectAllFaces e = Resolves []"
      "v = \<lparr>isMatch = False, message = ''No face detected for verification.'',
            distance = None, confidence = None\<rparr>"
  | (many) face detections where "initialFace c = Some face"
      "detectAllFaces e = Resolves detections" "2 \<le> length detections"
      "v = \<lparr>isMatch = False,
            message = ''Multiple faces detected. Please ensure only your face is in the frame.'',
            distance = None, confidence = None\<rparr>"
  | (away) face probe where "initialFace c = Some face" "detectAllFaces e = Resolves [probe]"
      "checkIfLookingAtScreen (landmarks probe) = Inr False"
      "v = \<lparr>isMatch = False,
            message = ''Please look directly at the screen for verification.'',
            distance = None, confidence = None\<rparr>"
  | (compared) face probe d m where "initialFace c = Some face"
      "detectAllFaces e = Resolves [probe]"
      "checkIfLookingAtScreen (landmarks probe) = Inr True"
      "euclideanDistance (FaceData.descriptor face) (WithFaceDescriptor.descriptor probe) = Inr d"
      "v = \<lparr>isMatch = (d < roundToDouble (6 / 10)), message = m, distance = Some d,
            confidence = Some (Math_round (roundToDouble (roundToDouble (1 - d) * 100)))\<rparr>"
proof (cases "initialFace c")
  case None
  with assms show ?thesis by (simp add: verifyFace_def)
next
  case (Some face)
  show ?thesis
  proof (cases "\<not> videoRef e \<or> \<not> modelsLoaded c")
    case True
    with assms Some show ?thesis by (simp add: verifyFace_def)
  next
    case ok: False
    show ?thesis
    proof (cases "detectAllFaces e")
      case Rejects
      with assms Some ok show ?thesis by (simp add: verifyFace_def)
    next
      case (Resolves detections)
      show ?thesis
      proof (cases detections)
        case Nil
        with assms Some ok Resolves show ?thesis
          by (intro empty [of face]) (auto simp: verifyFace_def)
      next
        case (Cons probe more)
        show ?thesis
        proof (cases more)
          case (Cons p2 rest)
          with assms Some ok Resolves \<open>detections = probe # more\<close> show ?thesis
            by (intro many [of face detections])
               (cases "canvasRef e"; auto simp: verifyFace_def drawOverlay_def)+
        next
          case Nil
          with \<open>detections = probe # more\<close> have one: "detections = [probe]" by simp
          show ?thesis
          proof (cases "checkIfLookingAtScreen (landmarks probe)")
            case (Inl err)
            with assms Some ok Resolves one show ?thesis by (simp add: verifyFace_def)
          next
            case (Inr looking)
            show ?thesis
            proof (cases looking)
              case False
              with assms Some ok Resolves one Inr show ?thesis
                by (intro away [of face probe])
                   (cases "canvasRef e"; auto simp: verifyFace_def drawOverlay_def)+
            next
              case True
              show ?thesis
              proof (cases "euclideanDistance (FaceData.descriptor face)
                               (WithFaceDescriptor.descriptor probe)")
                case (Inl err)
                with assms Some ok Resolves one Inr True show ?thesis
                  by (simp add: verifyFace_def)
              next
                case (Inr d)
                with assms Some ok Resolves one \<open>checkIfLookingAtScreen (landmarks probe) = Inr looking\<close> True
                show ?thesis
                  by (intro compared [of face probe d])
                     (cases "canvasRef e"; auto simp: verifyFace_def drawOverlay_def Let_def)+
              qed
            qed
          qed
        qed
      qed
    qed
  qed
qed

text \<open>What a list of setter calls leaves as it is.\<close>

lemma apply_effects_initialFace:
  "\<not> list_ex is_SetInitialFace es \<Longrightarrow> initialFace (apply_effects es c) = initialFace c"
proof (induction es arbitrary: c)
  case Nil
  then show ?case by simp
next
  case (Cons eff es)
  then show ?case by (cases eff) simp_all
qed

lemma apply_effects_verificationResult:
  "\<forall>v. SetVerificationResult v \<notin> set es \<Longrightarrow>
     verificationResult (apply_effects es c) = verificationResult c"
proof (induction es arbitrary: c)
  case Nil
  then show ?case by simp
next
  case (Cons eff es)
  then show ?case by (cases eff) auto
qed

lemma apply_effects_modelsLoaded:
  "SetModelsLoaded False \<notin> set es \<Longrightarrow> modelsLoaded c \<Longrightarrow> modelsLoaded (apply_effects es c)"
proof (induction es arbitrary: c)
  case Nil
  then show ?case by simp
next
  case (Cons eff es)
  then show ?case by (cases eff) auto
qed

lemma apply_effects_enrolled:
  "initialFace c \<noteq> None \<Longrightarrow> initialFace (apply_effects es c) \<noteq> None"
proof (induction es arbitrary: c)
  case Nil
  then show ?case by simp
next
  case (Cons eff es)
  then show ?case by (cases eff) auto
qed

text \<open>Only a capture of a single frontal face enrolls; the models stay loaded.\<close>

lemma enrolls_CaptureFace_iff:
  "enrolls (CaptureFace e) c \<longleftrightarrow>
     videoRef e \<and> modelsLoaded c
     \<and> (\<exists>face. detectAllFaces e = Resolves [face]
            \<and> checkIfLookingAtScreen (landmarks face) = Inr True)"
proof (cases "detectAllFaces e")
  case Rejects
  then show ?thesis by (simp add: enrolls_def captureFace_def)
next
  case (Resolves detections)
  show ?thesis
  proof (cases detections)
    case Nil
    with Resolves show ?thesis by (simp add: enrolls_def captureFace_def)
  next
    case (Cons face more)
    show ?thesis
    proof (cases more)
      case Nil
      with Resolves Cons show ?thesis
        by (cases "canvasRef e"; cases "checkIfLookingAtScreen (landmarks face)")
           (auto simp: enrolls_def captureFace_def drawOverlay_def)
    next
      case (Cons f2 rest)
      with Resolves \<open>detections = face # more\<close> show ?thesis
        by (cases "canvasRef e") (auto simp: enrolls_def captureFace_def drawOverlay_def)
    qed
  qed
qed

lemma enrolls_only_CaptureFace: "enrolls a c \<Longrightarrow> \<exists>e. a = CaptureFace e"
proof (cases a)
  case (VerifyFace e)
  assume "enrolls a c"
  then have "\<exists>f. SetInitialFace f \<in> set (verifyFace e c)"
    unfolding VerifyFace enrolls_def list_ex_iff
    by (auto elim: is_SetInitialFace.elims)
  then show ?thesis
    by (auto simp: verifyFace_def drawOverlay_def Let_def
        split: option.splits detector.splits sum.splits canvas.splits if_splits)
qed (auto simp: enrolls_def loadModels_def startWebcam_def split: if_splits)

lemma step_quiet_initialFace: "\<not> enrolls a c \<Longrightarrow> initialFace (step a c) = initialFace c"
  by (simp add: enrolls_def step_def apply_effects_initialFace)

lemma run_quiet_initialFace: "quiet acts c \<Longrightarrow> initialFace (run acts c) = initialFace c"
  by (induction acts arbitrary: c) (simp_all add: step_quiet_initialFace)

lemma effects_keep_modelsLoaded: "SetModelsLoaded False \<notin> set (effects a c)"
proof (cases a)
  case (CaptureFace e)
  then show ?thesis
    by (auto simp: captureFace_def drawOverlay_def Let_def
        split: detector.splits sum.splits canvas.splits if_splits)
next
  case (VerifyFace e)
  then show ?thesis
    by (auto simp: verifyFace_def drawOverlay_def Let_def
        split: option.splits detector.splits sum.splits canvas.splits if_splits)
qed (auto simp: loadModels_def startWebcam_def)

lemma step_modelsLoaded: "modelsLoaded c \<Longrightarrow> modelsLoaded (step a c)"
  by (simp add: step_def apply_effects_modelsLoaded effects_keep_modelsLoaded)

lemma run_modelsLoaded: "modelsLoaded c \<Longrightarrow> modelsLoaded (run acts c)"
  by (induction acts arbitrary: c) (simp_all add: step_modelsLoaded)

lemma captureFace_stores:
  assumes "videoRef e" and "modelsLoaded c" and "detectAllFaces e = Resolves [face]"
    and "checkIfLookingAtScreen (landmarks face) = Inr True"
  shows "initialFace (step (CaptureFace e) c) =
           Some \<lparr>descriptor = WithFaceDescriptor.descriptor face, detection = face\<rparr>"
  using assms
  by (cases "canvasRef e") (simp_all add: step_def captureFace_def drawOverlay_def)

lemma verdict_effect_only_VerifyFace:
  "SetVerificationResult v \<in> set (effects a c) \<Longrightarrow> \<exists>e. a = VerifyFace e"
proof (cases a)
  case (CaptureFace e)
  assume "SetVerificationResult v \<in> set (effects a c)"
  with CaptureFace show ?thesis
    by (auto simp: captureFace_def drawOverlay_def Let_def
        split: detector.splits sum.splits canvas.splits if_splits)
qed (auto simp: loadModels_def startWebcam_def split: if_splits)

lemma step_enrolled: "initialFace c \<noteq> None \<Longrightarrow> initialFace (step a c) \<noteq> None"
  by (simp add: step_def apply_effects_enrolled)

lemma reachable_verdict_enrolled:
  "reachable c \<Longrightarrow> verificationResult c \<noteq> None \<Longrightarrow> initialFace c \<noteq> None"
proof (induction rule: reachable.induct)
  case reachable_initial
  then show ?case by (simp add: initial_def)
next
  case (reachable_step c a)
  show ?case
  proof (cases "\<exists>v. SetVerificationResult v \<in> set (effects a c)")
    case True
    then obtain v e where "a = VerifyFace e"
      and made: "SetVerificationResult v \<in> set (verifyFace e c)"
      using verdict_effect_only_VerifyFace by fastforce
    from made have "initialFace c \<noteq> None"
      by (cases rule: verdict_produced_cases) simp_all
    then show ?thesis by (rule step_enrolled)
  next
    case False
    then have "verificationResult (step a c) = verificationResult c"
      by (simp add: step_def apply_effects_verificationResult)
    with reachable_step have "initialFace c \<noteq> None" by simp
    then show ?thesis by (rule step_enrolled)
  qed
qed

lemma reachable_enrolled_loaded:
  "reachable c \<Longrightarrow> initialFace c \<noteq> None \<Longrightarrow> modelsLoaded c"
proof (induction rule: reachable.induct)
  case reachable_initial
  then show ?case by (simp add: initial_def)
next
  case (reachable_step c a)
  show ?case
  proof (cases "enrolls a c")
    case True
    then have "modelsLoaded c"
      using enrolls_only_CaptureFace [OF True] by (auto simp: enrolls_CaptureFace_iff)
    then show ?thesis by (rule step_modelsLoaded)
  next
    case False
    with reachable_step have "modelsLoaded c"
      by (simp add: step_quiet_initialFace)
    then show ?thesis by (rule step_modelsLoaded)
  qed
qed

lemma verifyFace_sample:
  "\<exists>m. verifyFace (frame [frontal_face b]) (enrolled a) =
     [SetStatusMessage ''Verifying face'', SetIsLookingAtScreen True,
      SetVerificationResult
        \<lparr>isMatch = (\<bar>a - b\<bar> < roundToDouble (6 / 10)), message = m,
         distance = Some \<bar>a - b\<bar>,
         confidence = Some (Math_round (roundToDouble (roundToDouble (1 - \<bar>a - b\<bar>) * 100)))\<rparr>,
      SetStatusMessage
        (''Verification complete: '' @
         (if \<bar>a - b\<bar> < roundToDouble (6 / 10) then ''Match confirmed!''
          else ''Different person detected.''))]"
  by (simp add: verifyFace_def enrolled_fields frame_fields frontal_face_fields check_frontal
      euclideanDistance_unit drawOverlay_def Let_def)

subsection \<open>The gaze check\<close>

text \<open>
  C7. When the centres of the two eyes have the same x coordinate, so that the difference
  \<^verbatim>\<open>eyeXDifference\<close> is 0, the gaze check returns false: it returns a value and does not
  throw. The landmark set has its nose tip (index 3), as every set of the 68-point model has.
\<close>

theorem isFrontal_false_when_eyes_stacked:
  assumes "3 < length (getNose lm)"
    and "getCenterPoint (getLeftEye lm) = Some l"
    and "getCenterPoint (getRightEye lm) = Some r"
    and "\<bar>x r - x l\<bar> = 0"
  shows "checkIfLookingAtScreen lm = Inr False"
  using assms by (simp add: checkIfLookingAtScreen_def Let_def)

theorem isFrontal_false_when_eyes_stacked_witness:
  "3 < length (getNose upright_landmarks)
   \<and> getCenterPoint (getLeftEye upright_landmarks) = Some \<lparr>x = 10, y = 0\<rparr>
   \<and> getCenterPoint (getRightEye upright_landmarks) = Some \<lparr>x = 10, y = 8\<rparr>
   \<and> \<bar>x \<lparr>x = 10, y = 8\<rparr> - x \<lparr>x = 10, y = 0\<rparr>\<bar> = 0
   \<and> checkIfLookingAtScreen upright_landmarks = Inr False"
proof -
  have nose: "3 < length (getNose upright_landmarks)"
    by (simp add: upright_landmarks_def)
  have left: "getCenterPoint (getLeftEye upright_landmarks) = Some \<lparr>x = 10, y = 0\<rparr>"
    by (simp add: upright_landmarks_def getCenterPoint_replicate)
  have right: "getCenterPoint (getRightEye upright_landmarks) = Some \<lparr>x = 10, y = 8\<rparr>"
    by (simp add: upright_landmarks_def getCenterPoint_replicate)
  have stacked: "\<bar>x \<lparr>x = 10, y = 8\<rparr> - x \<lparr>x = 10, y = 0\<rparr>\<bar> = 0"
    by simp
  from isFrontal_false_when_eyes_stacked [OF nose left right stacked] nose left right stacked
  show ?thesis by simp
qed

text \<open>
  C8, as the specification states it: whenever the nose tip lies on the midline of the eye
  centres (\<^verbatim>\<open>noseOffset\<close> is 0) and the eye centres are level (\<^verbatim>\<open>eyeYDifference\<close> is 0), the
  gaze check returns true. It fails where the two eye centres coincide: both comparisons
  are then \<open>0 < 0\<close>.
\<close>

theorem isFrontal_symmetric_counterexample:
  "3 < length (getNose collapsed_landmarks)
   \<and> getCenterPoint (getLeftEye collapsed_landmarks) = Some \<lparr>x = 0, y = 0\<rparr>
   \<and> getCenterPoint (getRightEye collapsed_landmarks) = Some \<lparr>x = 0, y = 0\<rparr>
   \<and> \<bar>y \<lparr>x = 0, y = 0\<rparr> - y \<lparr>x = 0, y = 0\<rparr>\<bar> = 0
   \<and> \<bar>x (getNose collapsed_landmarks ! 3) - (x \<lparr>x = 0, y = 0\<rparr> + x \<lparr>x = 0, y = 0\<rparr>) / 2\<bar> = 0
   \<and> checkIfLookingAtScreen collapsed_landmarks = Inr False"
  by (simp add: check_collapsed) (simp add: collapsed_landmarks_def getCenterPoint_replicate)

text \<open>
  C8, amended: when in addition the eye centres differ in their x coordinates
  (\<^verbatim>\<open>eyeXDifference\<close> is not 0), a landmark set with \<^verbatim>\<open>noseOffset\<close> 0 and
  \<^verbatim>\<open>eyeYDifference\<close> 0 passes the gaze check.
\<close>

theorem isFrontal_true_when_symmetric:
  assumes nose: "3 < length (getNose lm)"
    and left: "getCenterPoint (getLeftEye lm) = Some l"
    and right: "getCenterPoint (getRightEye lm) = Some r"
    and apart: "\<bar>x r - x l\<bar> \<noteq> 0"
    and level: "\<bar>y r - y l\<bar> = 0"
    and centred: "\<bar>x (getNose lm ! 3) - (x l + x r) / 2\<bar> = 0"
  shows "checkIfLookingAtScreen lm = Inr True"
proof -
  from apart have pos: "0 < \<bar>x r - x l\<bar>" by simp
  then have "\<bar>y r - y l\<bar> < \<bar>x r - x l\<bar> * (3 / 10)"
    and "\<bar>x (getNose lm ! 3) - (x l + x r) / 2\<bar> < \<bar>x r - x l\<bar> * (4 / 10)"
    unfolding level centred by simp_all
  with nose left right show ?thesis
    by (simp add: checkIfLookingAtScreen_def Let_def)
qed

theorem isFrontal_true_when_symmetric_witness:
  "3 < length (getNose frontal_landmarks)
   \<and> getCenterPoint (getLeftEye frontal_landmarks) = Some \<lparr>x = 0, y = 0\<rparr>
   \<and> getCenterPoint (getRightEye frontal_landmarks) = Some \<lparr>x = 10, y = 0\<rparr>
   \<and> \<bar>x \<lparr>x = 10, y = 0\<rparr> - x \<lparr>x = 0, y = 0\<rparr>\<bar> \<noteq> 0
   \<and> \<bar>y \<lparr>x = 10, y = 0\<rparr> - y \<lparr>x = 0, y = 0\<rparr>\<bar> = 0
   \<and> \<bar>x (getNose frontal_landmarks ! 3) - (x \<lparr>x = 0, y = 0\<rparr> + x \<lparr>x = 10, y = 0\<rparr>) / 2\<bar> = 0
   \<and> checkIfLookingAtScreen frontal_landmarks = Inr True"
proof -
  have nose: "3 < length (getNose frontal_landmarks)"
    by (simp add: frontal_landmarks_def)
  have left: "getCenterPoint (getLeftEye frontal_landmarks) = Some \<lparr>x = 0, y = 0\<rparr>"
    by (simp add: frontal_landmarks_def getCenterPoint_replicate)
  have right: "getCenterPoint (getRightEye frontal_landmarks) = Some \<lparr>x = 10, y = 0\<rparr>"
    by (simp add: frontal_landmarks_def getCenterPoint_replicate)
  have apart: "\<bar>x \<lparr>x = 10, y = 0\<rparr> - x \<lparr>x = 0, y = 0\<rparr>\<bar> \<noteq> 0"
    by simp
  have level: "\<bar>y \<lparr>x = 10, y = 0\<rparr> - y \<lparr>x = 0, y = 0\<rparr>\<bar> = 0"
    by simp
  have centred:
    "\<bar>x (getNose frontal_landmarks ! 3) - (x \<lparr>x = 0, y = 0\<rparr> + x \<lparr>x = 10, y = 0\<rparr>) / 2\<bar> = 0"
    by (simp add: frontal_landmarks_def)
  from isFrontal_true_when_symmetric [OF nose left right apart level centred]
    nose left right apart level centred
  show ?thesis by simp
qed

subsection \<open>Verification\<close>

text \<open>
  C1. When a face is enrolled and the frame of a verify action has exactly one detection
  that passes the gaze check, the verdict's \<^verbatim>\<open>isMatch\<close> is \<^verbatim>\<open>distance < 0.6\<close> for the
  Euclidean distance of the enrolled and the probe descriptor, where \<^verbatim>\<open>0.6\<close> is the number
  the program writes so, the double \<open>5404319552844595 / 2 ^ 53\<close>; the comparison is strict,
  so a distance of exactly that number is no match. The detector ran (video element
  present, models loaded) and the two descriptors have the same length, so that the
  distance is defined.
\<close>

theorem verifyFace_isMatch_strict:
  assumes "videoRef e" and "modelsLoaded c" and "initialFace c = Some face"
    and "detectAllFaces e = Resolves [probe]"
    and "checkIfLookingAtScreen (landmarks probe) = Inr True"
    and "euclideanDistance (FaceData.descriptor face) (WithFaceDescriptor.descriptor probe) = Inr d"
  shows "map_option isMatch (verificationResult (step (VerifyFace e) c))
        = Some (d < 5404319552844595 / 2 ^ 53)
    \<and> (d = 5404319552844595 / 2 ^ 53 \<longrightarrow>
          map_option isMatch (verificationResult (step (VerifyFace e) c)) = Some False)"
  using verifyFace_compares [OF assms] by (auto simp: threshold_value_reduced)

theorem verifyFace_isMatch_strict_witness:
  "videoRef (frame [face_of probe_at_threshold])
   \<and> modelsLoaded (enrolled_of stored_at_threshold)
   \<and> initialFace (enrolled_of stored_at_threshold) =
       Some \<lparr>descriptor = stored_at_threshold, detection = face_of stored_at_threshold\<rparr>
   \<and> detectAllFaces (frame [face_of probe_at_threshold]) = Resolves [face_of probe_at_threshold]
   \<and> checkIfLookingAtScreen (landmarks (face_of probe_at_threshold)) = Inr True
   \<and> euclideanDistance stored_at_threshold probe_at_threshold
       = Inr (5404319552844595 / 2 ^ 53)
   \<and> map_option isMatch
        (verificationResult
           (step (VerifyFace (frame [face_of probe_at_threshold]))
              (enrolled_of stored_at_threshold)))
      = Some False
   \<and> euclideanDistance stored_below_threshold probe_below_threshold
       = Inr (5404319552844594 / 2 ^ 53)
   \<and> map_option isMatch
        (verificationResult
           (step (VerifyFace (frame [face_of probe_below_threshold]))
              (enrolled_of stored_below_threshold)))
      = Some True"
proof -
  have look: "checkIfLookingAtScreen (landmarks (face_of arr)) = Inr True" for arr
    by (simp add: face_of_fields check_frontal)
  have at: "euclideanDistance
      (FaceData.descriptor
         \<lparr>descriptor = stored_at_threshold, detection = face_of stored_at_threshold\<rparr>)
      (WithFaceDescriptor.descriptor (face_of probe_at_threshold))
      = Inr (5404319552844595 / 2 ^ 53)"
    by (simp add: face_of_fields distance_at_threshold)
  have below: "euclideanDistance
      (FaceData.descriptor
         \<lparr>descriptor = stored_below_threshold, detection = face_of stored_below_threshold\<rparr>)
      (WithFaceDescriptor.descriptor (face_of probe_below_threshold))
      = Inr (5404319552844594 / 2 ^ 53)"
    by (simp add: face_of_fields distance_below_threshold)
  from verifyFace_isMatch_strict
    [OF frame_fields(1) enrolled_of_fields(1) enrolled_of_fields(2) frame_fields(3) look at]
  have one: "map_option isMatch
        (verificationResult
           (step (VerifyFace (frame [face_of probe_at_threshold]))
              (enrolled_of stored_at_threshold))) = Some False"
    by simp
  from verifyFace_isMatch_strict
    [OF frame_fields(1) enrolled_of_fields(1) enrolled_of_fields(2) frame_fields(3) look below]
  have two: "map_option isMatch
        (verificationResult
           (step (VerifyFace (frame [face_of probe_below_threshold]))
              (enrolled_of stored_below_threshold))) = Some True"
    by simp
  from one two look show ?thesis
    by (simp add: frame_fields enrolled_of_fields distance_at_threshold
        distance_below_threshold)
qed

text \<open>
  C2. In the same situation the verdict carries the distance and the confidence
  \<^verbatim>\<open>Math.round((1 - distance) * 100)\<close>, computed as the program computes it (the difference
  and the product each rounded to a double, then the nearest integer, a tie going up) and
  not clamped: identical descriptors give distance 0, a match and confidence 100; the
  distance 1.3 (the double \<open>5854679515581645 / 2 ^ 52\<close>) gives confidence -30. At the
  distance 0.405 (the double \<open>1823957849085051 / 2 ^ 52\<close>) the rounded product is 59.5 and
  the confidence 60; the products 12.5 and -37.5 give 13 and -37.
\<close>

theorem verifyFace_confidence_unclamped:
  assumes "videoRef e" and "modelsLoaded c" and "initialFace c = Some face"
    and "detectAllFaces e = Resolves [probe]"
    and "checkIfLookingAtScreen (landmarks probe) = Inr True"
    and "euclideanDistance (FaceData.descriptor face) (WithFaceDescriptor.descriptor probe) = Inr d"
  shows "\<exists>v. verificationResult (step (VerifyFace e) c) = Some v
      \<and> distance v = Some d
      \<and> confidence v = Some \<lfloor>roundToDouble (roundToDouble (1 - d) * 100) + 1 / 2\<rfloor>
      \<and> (FaceData.descriptor face = WithFaceDescriptor.descriptor probe
           \<longrightarrow> d = 0 \<and> isMatch v \<and> confidence v = Some 100)
      \<and> (d = 5854679515581645 / 2 ^ 52 \<longrightarrow> confidence v = Some (- 30))
      \<and> (d = 1823957849085051 / 2 ^ 52 \<longrightarrow> confidence v = Some 60)
      \<and> (d = 7 / 8 \<longrightarrow> confidence v = Some 13)
      \<and> (d = 11 / 8 \<longrightarrow> confidence v = Some (- 37))"
proof -
  from verifyFace_compares [OF assms] obtain m where
    v: "verificationResult (step (VerifyFace e) c) =
          Some \<lparr>isMatch = (d < roundToDouble (6 / 10)), message = m, distance = Some d,
                confidence = Some (Math_round (roundToDouble (roundToDouble (1 - d) * 100)))\<rparr>" ..
  have same: "d = 0" if "FaceData.descriptor face = WithFaceDescriptor.descriptor probe"
    using that assms(6) by (simp add: euclideanDistance_same)
  have full: "Math_round (roundToDouble (roundToDouble (1 - d) * 100)) = 100" if "d = 0"
    unfolding that by (rule confidence_at_0)
  have match: "d < roundToDouble (6 / 10)" if "d = 0"
    unfolding that threshold_value by simp
  have far: "Math_round (roundToDouble (roundToDouble (1 - d) * 100)) = - 30"
    if "d = 5854679515581645 / 2 ^ 52"
    unfolding that by (rule confidence_at_far)
  have near: "Math_round (roundToDouble (roundToDouble (1 - d) * 100)) = 60"
    if "d = 1823957849085051 / 2 ^ 52"
    unfolding that by (rule confidence_at_near)
  have up: "Math_round (roundToDouble (roundToDouble (1 - d) * 100)) = 13" if "d = 7 / 8"
    unfolding that by (rule confidence_at_tie_up)
  have down: "Math_round (roundToDouble (roundToDouble (1 - d) * 100)) = - 37" if "d = 11 / 8"
    unfolding that by (rule confidence_at_tie_down)
  have formula: "Math_round (roundToDouble (roundToDouble (1 - d) * 100))
      = \<lfloor>roundToDouble (roundToDouble (1 - d) * 100) + 1 / 2\<rfloor>"
    by (simp only: Math_round_def)
  show ?thesis
    unfolding v using same full match far near up down formula
    by (intro exI [of _ "\<lparr>isMatch = (d < roundToDouble (6 / 10)), message = m,
          distance = Some d,
          confidence = Some (Math_round (roundToDouble (roundToDouble (1 - d) * 100)))\<rparr>"])
       (simp del: of_int_floor_cancel)
qed

theorem verifyFace_confidence_unclamped_witness:
  "(\<exists>v. verificationResult (step (VerifyFace (frame [frontal_face 0])) (enrolled 0)) = Some v
      \<and> distance v = Some 0 \<and> isMatch v \<and> confidence v = Some 100)
   \<and> euclideanDistance stored_far probe_far = Inr (5854679515581645 / 2 ^ 52)
   \<and> (\<exists>v. verificationResult
            (step (VerifyFace (frame [face_of probe_far])) (enrolled_of stored_far)) = Some v
      \<and> distance v = Some (5854679515581645 / 2 ^ 52) \<and> confidence v = Some (- 30))
   \<and> euclideanDistance (unit_descriptor (13589545 / 2 ^ 25)) (unit_descriptor (5368709 / 2 ^ 52))
       = Inr (1823957849085051 / 2 ^ 52)
   \<and> (\<exists>v. verificationResult
            (step (VerifyFace (frame [frontal_face (5368709 / 2 ^ 52)]))
               (enrolled (13589545 / 2 ^ 25))) = Some v
      \<and> distance v = Some (1823957849085051 / 2 ^ 52) \<and> confidence v = Some 60)
   \<and> (\<exists>v. verificationResult
            (step (VerifyFace (frame [frontal_face (7 / 8)])) (enrolled 0)) = Some v
      \<and> distance v = Some (7 / 8) \<and> confidence v = Some 13)
   \<and> (\<exists>v. verificationResult
            (step (VerifyFace (frame [frontal_face (11 / 8)])) (enrolled 0)) = Some v
      \<and> distance v = Some (11 / 8) \<and> confidence v = Some (- 37))"
proof -
  have look: "checkIfLookingAtScreen (landmarks (frontal_face a)) = Inr True" for a
    by (simp add: frontal_face_fields check_frontal)
  have look': "checkIfLookingAtScreen (landmarks (face_of arr)) = Inr True" for arr
    by (simp add: face_of_fields check_frontal)
  have unit: "euclideanDistance
      (FaceData.descriptor \<lparr>descriptor = unit_descriptor a, detection = frontal_face a\<rparr>)
      (WithFaceDescriptor.descriptor (frontal_face b)) = Inr \<bar>a - b\<bar>" for a b
    by (simp add: frontal_face_fields euclideanDistance_unit)
  have near_distance: "\<bar>13589545 / 2 ^ 25 - 5368709 / 2 ^ 52\<bar> = (1823957849085051 / 2 ^ 52 :: real)"
    by simp
  have far: "euclideanDistance
      (FaceData.descriptor \<lparr>descriptor = stored_far, detection = face_of stored_far\<rparr>)
      (WithFaceDescriptor.descriptor (face_of probe_far)) = Inr (5854679515581645 / 2 ^ 52)"
    by (simp add: face_of_fields distance_far)
  from verifyFace_confidence_unclamped
    [OF frame_fields(1) enrolled_fields(1) enrolled_fields(2) frame_fields(3)
      look [of 0] unit [of 0 0]]
  have one: "\<exists>v. verificationResult (step (VerifyFace (frame [frontal_face 0])) (enrolled 0)) = Some v
      \<and> distance v = Some 0 \<and> isMatch v \<and> confidence v = Some 100"
    by (auto simp: frontal_face_fields)
  from verifyFace_confidence_unclamped
    [OF frame_fields(1) enrolled_of_fields(1) enrolled_of_fields(2) frame_fields(3) look' far]
  have two: "\<exists>v. verificationResult
            (step (VerifyFace (frame [face_of probe_far])) (enrolled_of stored_far)) = Some v
      \<and> distance v = Some (5854679515581645 / 2 ^ 52) \<and> confidence v = Some (- 30)"
    by auto
  from verifyFace_confidence_unclamped
    [OF frame_fields(1) enrolled_fields(1) enrolled_fields(2) frame_fields(3)
      look [of "5368709 / 2 ^ 52"] unit [of "13589545 / 2 ^ 25" "5368709 / 2 ^ 52"]]
  have three: "\<exists>v. verificationResult
            (step (VerifyFace (frame [frontal_face (5368709 / 2 ^ 52)]))
               (enrolled (13589545 / 2 ^ 25))) = Some v
      \<and> distance v = Some (1823957849085051 / 2 ^ 52) \<and> confidence v = Some 60"
    unfolding near_distance by blast
  from verifyFace_confidence_unclamped
    [OF frame_fields(1) enrolled_fields(1) enrolled_fields(2) frame_fields(3)
      look [of "7 / 8"] unit [of 0 "7 / 8"]]
  have four: "\<exists>v. verificationResult
            (step (VerifyFace (frame [frontal_face (7 / 8)])) (enrolled 0)) = Some v
      \<and> distance v = Some (7 / 8) \<and> confidence v = Some 13"
    by auto
  from verifyFace_confidence_unclamped
    [OF frame_fields(1) enrolled_fields(1) enrolled_fields(2) frame_fields(3)
      look [of "11 / 8"] unit [of 0 "11 / 8"]]
  have five: "\<exists>v. verificationResult
            (step (VerifyFace (frame [frontal_face (11 / 8)])) (enrolled 0)) = Some v
      \<and> distance v = Some (11 / 8) \<and> confidence v = Some (- 37)"
    by auto
  have "euclideanDistance (unit_descriptor (13589545 / 2 ^ 25)) (unit_descriptor (5368709 / 2 ^ 52))
       = Inr (1823957849085051 / 2 ^ 52)"
    unfolding euclideanDistance_unit near_distance ..
  with one two three four five distance_far show ?thesis
    by blast
qed

text \<open>
  C5. A verify action while no face is enrolled only reports
  \<^verbatim>\<open>"Please capture your initial face first"\<close>: the handler returns before the detector
  and the distance are reached, sets no verdict, and leaves the enrolled face unset.
\<close>

theorem verifyFace_not_enrolled:
  assumes "initialFace c = None"
  shows "verifyFace e c = [SetStatusMessage ''Please capture your initial face first'']
    \<and> step (VerifyFace e) c = c\<lparr>statusMessage := ''Please capture your initial face first''\<rparr>
    \<and> initialFace (step (VerifyFace e) c) = None
    \<and> verificationResult (step (VerifyFace e) c) = verificationResult c"
  using assms by (simp add: step_def verifyFace_def)

theorem verifyFace_not_enrolled_witness:
  "initialFace ready = None
   \<and> verifyFace (frame [frontal_face 0]) ready =
       [SetStatusMessage ''Please capture your initial face first'']
   \<and> initialFace (step (VerifyFace (frame [frontal_face 0])) ready) = None
   \<and> verificationResult (step (VerifyFace (frame [frontal_face 0])) ready) = None"
  using verifyFace_not_enrolled [OF ready_fields(2), of "frame [frontal_face 0]"]
  by (simp add: ready_fields)

text \<open>
  C10. A verdict set for a capture condition (no face, several faces, a face that fails the
  gaze check) has \<^verbatim>\<open>isMatch\<close> false and neither a distance nor a confidence; a verdict
  set after the comparison has both.
\<close>

theorem verdict_fields_by_cause:
  assumes "SetVerificationResult v \<in> set (verifyFace e c)"
    and "detectAllFaces e = Resolves detections"
  shows "(detections = [] \<or> 2 \<le> length detections
          \<or> (\<exists>probe. detections = [probe] \<and> checkIfLookingAtScreen (landmarks probe) = Inr False)
            \<longrightarrow> \<not> isMatch v \<and> distance v = None \<and> confidence v = None)
    \<and> ((\<exists>probe. detections = [probe] \<and> checkIfLookingAtScreen (landmarks probe) = Inr True)
            \<longrightarrow> distance v \<noteq> None \<and> confidence v \<noteq> None)"
  using assms(1)
proof (cases rule: verdict_produced_cases)
  case (compared face probe d m)
  with assms(2) show ?thesis by auto
qed (use assms(2) in auto)

theorem verdict_fields_by_cause_witness:
  "SetVerificationResult
      \<lparr>isMatch = False, message = ''No face detected for verification.'',
       distance = None, confidence = None\<rparr> \<in> set (verifyFace (frame []) (enrolled 0))
   \<and> detectAllFaces (frame []) = Resolves []
   \<and> distance \<lparr>isMatch = False, message = ''No face detected for verification.'',
       distance = None, confidence = None\<rparr> = None
   \<and> (\<exists>v. SetVerificationResult v \<in> set (verifyFace (frame [frontal_face 0]) (enrolled 0))
        \<and> distance v \<noteq> None \<and> confidence v \<noteq> None)"
proof -
  have made: "SetVerificationResult
      \<lparr>isMatch = False, message = ''No face detected for verification.'',
       distance = None, confidence = None\<rparr> \<in> set (verifyFace (frame []) (enrolled 0))"
    by (simp add: verifyFace_def enrolled_fields frame_fields)
  obtain v where compared:
    "SetVerificationResult v \<in> set (verifyFace (frame [frontal_face 0]) (enrolled 0))"
    using verifyFace_sample [of 0 0] by auto
  from verdict_fields_by_cause [OF compared frame_fields(3)]
  have "distance v \<noteq> None \<and> confidence v \<noteq> None"
    by (simp add: frontal_face_fields check_frontal)
  with compared verdict_fields_by_cause [OF made frame_fields(3)] made
  show ?thesis by (auto simp: frame_fields)
qed

text \<open>
  C4. In the enrolled state (where the models are loaded, see
  \<open>reachable_enrolled_loaded\<close>) a verify action on a frame with no detection, with several,
  or with one that fails the gaze check leaves a verdict with \<^verbatim>\<open>isMatch\<close> false and the
  message of its cause in \<^verbatim>\<open>verificationResult\<close>, and the \<^verbatim>\<open>catch\<close> clause is not reached.
\<close>

theorem verifyFace_capture_failures:
  assumes "videoRef e" and "modelsLoaded c" and "initialFace c = Some face"
    and "detectAllFaces e = Resolves detections"
  shows "(detections = [] \<longrightarrow>
            verificationResult (step (VerifyFace e) c) =
              Some \<lparr>isMatch = False, message = ''No face detected for verification.'',
                    distance = None, confidence = None\<rparr>)
    \<and> (2 \<le> length detections \<longrightarrow>
            verificationResult (step (VerifyFace e) c) =
              Some \<lparr>isMatch = False,
                    message =
                      ''Multiple faces detected. Please ensure only your face is in the frame.'',
                    distance = None, confidence = None\<rparr>)
    \<and> (\<forall>probe. detections = [probe] \<and> checkIfLookingAtScreen (landmarks probe) = Inr False \<longrightarrow>
            verificationResult (step (VerifyFace e) c) =
              Some \<lparr>isMatch = False,
                    message = ''Please look directly at the screen for verification.'',
                    distance = None, confidence = None\<rparr>)
    \<and> (detections = [] \<or> 2 \<le> length detections
          \<or> (\<exists>probe. detections = [probe] \<and> checkIfLookingAtScreen (landmarks probe) = Inr False) \<longrightarrow>
            SetStatusMessage ''Error at verifying the face.'' \<notin> set (verifyFace e c))"
proof (intro conjI impI allI)
  assume "detections = []"
  with assms show "verificationResult (step (VerifyFace e) c) =
              Some \<lparr>isMatch = False, message = ''No face detected for verification.'',
                    distance = None, confidence = None\<rparr>"
    by (simp add: step_def verifyFace_def)
next
  assume "2 \<le> length detections"
  then have "detections \<noteq> [] \<and> 1 < length detections" by auto
  with assms show "verificationResult (step (VerifyFace e) c) =
              Some \<lparr>isMatch = False,
                    message =
                      ''Multiple faces detected. Please ensure only your face is in the frame.'',
                    distance = None, confidence = None\<rparr>"
    by (cases "canvasRef e") (simp_all add: step_def verifyFace_def drawOverlay_def)
next
  fix probe
  assume "detections = [probe] \<and> checkIfLookingAtScreen (landmarks probe) = Inr False"
  with assms show "verificationResult (step (VerifyFace e) c) =
              Some \<lparr>isMatch = False,
                    message = ''Please look directly at the screen for verification.'',
                    distance = None, confidence = None\<rparr>"
    by (cases "canvasRef e") (simp_all add: step_def verifyFace_def drawOverlay_def)
next
  assume "detections = [] \<or> 2 \<le> length detections
          \<or> (\<exists>probe. detections = [probe] \<and> checkIfLookingAtScreen (landmarks probe) = Inr False)"
  then consider "detections = []" | "detections \<noteq> [] \<and> 1 < length detections"
    | probe where "detections = [probe]" "checkIfLookingAtScreen (landmarks probe) = Inr False"
    by (cases detections) (auto simp: Suc_le_eq)
  then show "SetStatusMessage ''Error at verifying the face.'' \<notin> set (verifyFace e c)"
    using assms by cases (cases "canvasRef e"; simp add: verifyFace_def drawOverlay_def)+
qed

theorem verifyFace_capture_failures_witness:
  "verificationResult (step (VerifyFace (frame [])) (enrolled 0)) =
      Some \<lparr>isMatch = False, message = ''No face detected for verification.'',
            distance = None, confidence = None\<rparr>
   \<and> verificationResult (step (VerifyFace (frame [frontal_face 0, frontal_face 0])) (enrolled 0)) =
      Some \<lparr>isMatch = False,
            message = ''Multiple faces detected. Please ensure only your face is in the frame.'',
            distance = None, confidence = None\<rparr>
   \<and> verificationResult (step (VerifyFace (frame [upright_face 0])) (enrolled 0)) =
      Some \<lparr>isMatch = False,
            message = ''Please look directly at the screen for verification.'',
            distance = None, confidence = None\<rparr>"
proof -
  note at = verifyFace_capture_failures [OF frame_fields(1) enrolled_fields(1) enrolled_fields(2)
      frame_fields(3)]
  from at [of "[]" 0] at [of "[frontal_face 0, frontal_face 0]" 0] at [of "[upright_face 0]" 0]
  show ?thesis
    by (simp add: upright_face_fields check_upright)
qed

subsection \<open>Enrollment\<close>



text \<open>
  C6. After two captures that enroll, of a face A and then of a face B, the enrolled face
  is B's; it stays B's through any later actions that do not enroll, and a verify action
  after them compares its probe with B's descriptor: distance, match decision and
  confidence are those of B and the probe.
\<close>

theorem enroll_twice_matches_second:
  assumes loaded: "modelsLoaded c"
    and first: "videoRef eA" "detectAllFaces eA = Resolves [faceA]"
      "checkIfLookingAtScreen (landmarks faceA) = Inr True"
    and second: "videoRef eB" "detectAllFaces eB = Resolves [faceB]"
      "checkIfLookingAtScreen (landmarks faceB) = Inr True"
    and between: "quiet acts (step (CaptureFace eB) (step (CaptureFace eA) c))"
    and probe: "videoRef e" "detectAllFaces e = Resolves [probe]"
      "checkIfLookingAtScreen (landmarks probe) = Inr True"
    and dist: "euclideanDistance (WithFaceDescriptor.descriptor faceB)
        (WithFaceDescriptor.descriptor probe) = Inr d"
  shows "initialFace (step (CaptureFace eA) c) =
        Some \<lparr>descriptor = WithFaceDescriptor.descriptor faceA, detection = faceA\<rparr>
    \<and> initialFace (run acts (step (CaptureFace eB) (step (CaptureFace eA) c))) =
        Some \<lparr>descriptor = WithFaceDescriptor.descriptor faceB, detection = faceB\<rparr>
    \<and> (\<exists>v. verificationResult
              (step (VerifyFace e) (run acts (step (CaptureFace eB) (step (CaptureFace eA) c))))
              = Some v
          \<and> distance v = Some d \<and> isMatch v = (d < 5404319552844595 / 2 ^ 53)
          \<and> confidence v = Some (Math_round (roundToDouble (roundToDouble (1 - d) * 100))))"
proof -
  let ?cA = "step (CaptureFace eA) c"
  let ?cB = "step (CaptureFace eB) ?cA"
  let ?c' = "run acts ?cB"
  have A: "initialFace ?cA =
      Some \<lparr>descriptor = WithFaceDescriptor.descriptor faceA, detection = faceA\<rparr>"
    using first loaded by (intro captureFace_stores)
  have loadedA: "modelsLoaded ?cA"
    using loaded by (rule step_modelsLoaded)
  have B: "initialFace ?cB =
      Some \<lparr>descriptor = WithFaceDescriptor.descriptor faceB, detection = faceB\<rparr>"
    using second loadedA by (intro captureFace_stores)
  have kept: "initialFace ?c' =
      Some \<lparr>descriptor = WithFaceDescriptor.descriptor faceB, detection = faceB\<rparr>"
    using run_quiet_initialFace [OF between] B by simp
  have loaded': "modelsLoaded ?c'"
    by (intro run_modelsLoaded step_modelsLoaded loadedA)
  have "euclideanDistance
      (FaceData.descriptor \<lparr>descriptor = WithFaceDescriptor.descriptor faceB, detection = faceB\<rparr>)
      (WithFaceDescriptor.descriptor probe) = Inr d"
    using dist by simp
  from verifyFace_compares [OF probe(1) loaded' kept probe(2) probe(3) this]
  have "\<exists>v. verificationResult (step (VerifyFace e) ?c') = Some v
          \<and> distance v = Some d \<and> isMatch v = (d < 5404319552844595 / 2 ^ 53)
          \<and> confidence v = Some (Math_round (roundToDouble (roundToDouble (1 - d) * 100)))"
    by (auto simp: threshold_value_reduced)
  with A kept show ?thesis by simp
qed

theorem enroll_twice_matches_second_witness:
  "quiet [VerifyFace (frame [frontal_face 1]), CaptureFace (frame [upright_face 1]),
          CaptureFace (frame [])]
     (step (CaptureFace (frame [frontal_face 0])) (step (CaptureFace (frame [frontal_face 1])) ready))
   \<and> euclideanDistance (WithFaceDescriptor.descriptor (frontal_face 0))
        (WithFaceDescriptor.descriptor (frontal_face 1)) = Inr 1
   \<and> initialFace
        (run [VerifyFace (frame [frontal_face 1]), CaptureFace (frame [upright_face 1]),
              CaptureFace (frame [])]
           (step (CaptureFace (frame [frontal_face 0]))
              (step (CaptureFace (frame [frontal_face 1])) ready)))
      = Some \<lparr>descriptor = unit_descriptor 0, detection = frontal_face 0\<rparr>
   \<and> (\<exists>v. verificationResult
          (step (VerifyFace (frame [frontal_face 1]))
             (run [VerifyFace (frame [frontal_face 1]), CaptureFace (frame [upright_face 1]),
                   CaptureFace (frame [])]
                (step (CaptureFace (frame [frontal_face 0]))
                   (step (CaptureFace (frame [frontal_face 1])) ready)))) = Some v
        \<and> distance v = Some 1 \<and> \<not> isMatch v \<and> confidence v = Some 0)"
proof -
  have look: "checkIfLookingAtScreen (landmarks (frontal_face a)) = Inr True" for a
    by (simp add: frontal_face_fields check_frontal)
  have between:
    "quiet [VerifyFace (frame [frontal_face 1]), CaptureFace (frame [upright_face 1]),
            CaptureFace (frame [])]
       (step (CaptureFace (frame [frontal_face 0]))
          (step (CaptureFace (frame [frontal_face 1])) ready))"
    using enrolls_only_CaptureFace
    by (auto simp: enrolls_CaptureFace_iff frame_fields upright_face_fields check_upright)
  have dist: "euclideanDistance (WithFaceDescriptor.descriptor (frontal_face 0))
      (WithFaceDescriptor.descriptor (frontal_face 1)) = Inr 1"
    by (simp add: frontal_face_fields euclideanDistance_unit)
  from enroll_twice_matches_second [OF ready_fields(1)
      frame_fields(1) frame_fields(3) look frame_fields(1) frame_fields(3) look between
      frame_fields(1) frame_fields(3) look dist]
  show ?thesis
    using between dist
    by (auto simp: frontal_face_fields roundToDouble_zero Math_round_def threshold_value_reduced)
qed

subsection \<open>When a verdict is produced\<close>

text \<open>
  C9, as the specification states it: a verify action produces a verdict only when a face is
  enrolled, the frame has exactly one detection and the gaze check passes. In the reachable
  state after one capture, a verify action on a frame with no detection produces a verdict.
\<close>

theorem verdict_without_usable_frame_counterexample:
  "reachable (enrolled 0)
   \<and> detectAllFaces (frame []) = Resolves []
   \<and> SetVerificationResult
        \<lparr>isMatch = False, message = ''No face detected for verification.'',
         distance = None, confidence = None\<rparr> \<in> set (verifyFace (frame []) (enrolled 0))
   \<and> verificationResult (step (VerifyFace (frame [])) (enrolled 0)) =
        Some \<lparr>isMatch = False, message = ''No face detected for verification.'',
              distance = None, confidence = None\<rparr>"
  by (simp add: reachable_enrolled frame_fields step_def verifyFace_def enrolled_fields)

text \<open>
  C9, amended: a verify action produces a verdict only when a face is enrolled, and a
  verdict that is a match or carries a distance or a confidence only when, in addition, the
  frame has exactly one detection and the gaze check passes; in every reachable state
  that holds a verdict a face is enrolled.
\<close>

theorem verdict_requires_enrollment:
  "(SetVerificationResult v \<in> set (verifyFace e c) \<longrightarrow>
       initialFace c \<noteq> None
       \<and> (isMatch v \<or> distance v \<noteq> None \<or> confidence v \<noteq> None \<longrightarrow>
            (\<exists>probe. detectAllFaces e = Resolves [probe]
               \<and> checkIfLookingAtScreen (landmarks probe) = Inr True)))
   \<and> (reachable c \<and> verificationResult c \<noteq> None \<longrightarrow> initialFace c \<noteq> None)"
proof (intro conjI impI)
  assume made: "SetVerificationResult v \<in> set (verifyFace e c)"
  then show "initialFace c \<noteq> None"
    by (cases rule: verdict_produced_cases) simp_all
  assume "isMatch v \<or> distance v \<noteq> None \<or> confidence v \<noteq> None"
  with made show "\<exists>probe. detectAllFaces e = Resolves [probe]
               \<and> checkIfLookingAtScreen (landmarks probe) = Inr True"
    by (cases rule: verdict_produced_cases) simp_all
next
  assume "reachable c \<and> verificationResult c \<noteq> None"
  then show "initialFace c \<noteq> None"
    using reachable_verdict_enrolled by blast
qed

theorem verdict_requires_enrollment_witness:
  "\<exists>v. SetVerificationResult v \<in> set (verifyFace (frame [frontal_face 0]) (enrolled 0))
     \<and> distance v \<noteq> None
     \<and> initialFace (enrolled 0) \<noteq> None
     \<and> detectAllFaces (frame [frontal_face 0]) = Resolves [frontal_face 0]
     \<and> checkIfLookingAtScreen (landmarks (frontal_face 0)) = Inr True"
proof -
  obtain v where made:
    "SetVerificationResult v \<in> set (verifyFace (frame [frontal_face 0]) (enrolled 0))"
    and carried: "distance v \<noteq> None"
    using verifyFace_sample [of 0 0] by auto
  from verdict_requires_enrollment [of v "frame [frontal_face 0]" "enrolled 0"] made carried
  have "initialFace (enrolled 0) \<noteq> None
     \<and> detectAllFaces (frame [frontal_face 0]) = Resolves [frontal_face 0]
     \<and> checkIfLookingAtScreen (landmarks (frontal_face 0)) = Inr True"
    by (auto simp: frame_fields)
  with made carried show ?thesis by blast
qed

end
